theory Spec2Isabelle
  imports Main
begin

section \<open>StoreModelValidator: the data\<close>

text \<open>
  The class \<^verbatim>\<open>StoreModelValidator\<close> of \<^verbatim>\<open>StoreModelValidator.ts\<close> keeps the last
  validatorjs result for an externally owned MobX model, and a map of the fields that may
  show their errors. Its instance fields, the objects they refer to and the one global
  setting of validatorjs it writes form the state below. validatorjs itself is not part
  of the repository: it is a parameter \<open>E\<close> of every operation that evaluates rules.
\<close>

type_synonym ref = nat
type_synonym field = string

text \<open>A value of the type parameter \<^verbatim>\<open>T\<close>. A model is an object whose properties the
  rules name, so a value is a reference to an object, or one of the two falsy values that
  \<^verbatim>\<open>!==\<close> tells apart.\<close>

datatype model_ref = Undefined | Null | Object ref

text \<open>The objects a reference can lead to, each with its field values: an observable
  object, an observable map (\<^verbatim>\<open>isObservableMap\<close>), a plain object (which an observable
  field of MobX does not store but replaces by an observable object with the same
  properties), and any other object (an instance of a class without observable
  properties, say), which MobX neither converts nor can observe.\<close>

datatype 'v cell =
    ObservableObject "field \<rightharpoonup> 'v"
  | ObservableMap "field \<rightharpoonup> 'v"
  | PlainObject "field \<rightharpoonup> 'v"
  | Other "field \<rightharpoonup> 'v"

text \<open>What a method can raise: the error of validatorjs for a rule it cannot parse or does
  not know, and the error of MobX's \<^verbatim>\<open>observe\<close> for a value it cannot observe.\<close>

datatype error = ConfigurationError string | MobxError

text \<open>The checked validator as far as the class reads it: \<^verbatim>\<open>errors.errors\<close>, an object
  from attribute to messages listed in the order of \<^verbatim>\<open>Object.keys\<close>, and
  \<^verbatim>\<open>errorCount\<close>.\<close>

record validation =
  v_errors :: "(field \<times> string list) list"
  v_errorCount :: nat

text \<open>\<^verbatim>\<open>Errors.has(attribute)\<close>: the attribute is an own key of \<^verbatim>\<open>errors.errors\<close>.\<close>

definition errors_has :: "validation \<Rightarrow> field \<Rightarrow> bool" where
  "errors_has v f = (f \<in> set (map fst (v_errors v)))"

text \<open>The arguments one validator is built from: the default language of validatorjs at
  that moment, the input object (\<open>None\<close> for a null or undefined model), the rules, the
  translated custom messages and the translated attribute names (\<open>None\<close> when
  \<^verbatim>\<open>setAttributeNames\<close> is not called).\<close>

record ('v, 'r) validator =
  a_lang :: string
  a_input :: "(field \<rightharpoonup> 'v) option"
  a_rules :: 'r
  a_customMessages :: "(string \<times> string) list option"
  a_attributeNames :: "(string \<times> string) list option"

text \<open>The Rule Evaluation Engine: building the validator and running \<^verbatim>\<open>check()\<close> on it
  either raises or yields the checked validator.\<close>

type_synonym ('v, 'r) evaluator = "('v, 'r) validator \<Rightarrow> error + validation"

record localizationProvider =
  translate :: "string \<Rightarrow> string"
  language :: "string option"

text \<open>\<^verbatim>\<open>NoopLocalizationProvider\<close>: \<^verbatim>\<open>translate\<close> returns the key, \<^verbatim>\<open>language\<close>
  reads the browser's setting, which is the parameter here.\<close>

definition NoopLocalizationProvider :: "string option \<Rightarrow> localizationProvider" where
  "NoopLocalizationProvider navigator_language =
     \<lparr>translate = (\<lambda>key. key), language = navigator_language\<rparr>"

record 'r config =
  cfg_model :: model_ref
  rules :: 'r
  customErrors :: "(string \<times> string) list option"
  attributeNames :: "(string \<times> string) list option"
  manual :: bool
  cfg_localizationProvider :: "localizationProvider option"

text \<open>The world outside the instance: the model objects, the \<^verbatim>\<open>Map<string, boolean>\<close>
  objects, the default language of validatorjs (\<^verbatim>\<open>ValidatorJS.useLang\<close>), the objects
  that carry a listener installed by \<^verbatim>\<open>observe\<close>, and the next free address.\<close>

record 'v world =
  heap :: "ref \<Rightarrow> 'v cell"
  mapStore :: "ref \<Rightarrow> (field \<times> bool) list"
  defaultLang :: string
  observed :: "ref list"
  next_ref :: ref

text \<open>The instance fields. \<open>validatedFields\<close> holds the address of the map,
  \<open>disposer\<close> the object whose listener it removes.\<close>

record ('v, 'r) state = "'v world" +
  validation :: validation
  model :: model_ref
  disposer :: "ref option"
  validatedFields :: ref
  dirty :: bool
  config :: "'r config"

text \<open>A change delivered by MobX: \<^verbatim>\<open>change.type\<close> and \<^verbatim>\<open>change.name\<close>, the latter
  absent for changes that name no property.\<close>

record change =
  change_type :: string
  change_name :: "string option"

section \<open>The Map of validated fields\<close>

definition Map_has :: "(field \<times> bool) list \<Rightarrow> field \<Rightarrow> bool" where
  "Map_has m k = (k \<in> set (map fst m))"

fun Map_set :: "(field \<times> bool) list \<Rightarrow> field \<Rightarrow> bool \<Rightarrow> (field \<times> bool) list" where
  "Map_set [] k b = [(k, b)]"
| "Map_set ((k', b') # m) k b = (if k' = k then (k, b) # m else (k', b') # Map_set m k b)"

definition Map_clear :: "(field \<times> bool) list \<Rightarrow> (field \<times> bool) list" where
  "Map_clear m = []"

text \<open>The Dirty-Field Ledger of a state: the keys of the map \<open>validatedFields\<close> refers to.\<close>

definition ledger :: "('v, 'r) state \<Rightarrow> field set" where
  "ledger s = set (map fst (mapStore s (validatedFields s)))"

section \<open>The operations\<close>

text \<open>A method runs on the state and returns its result, or the error it did not catch,
  together with the state it leaves behind.\<close>

type_synonym ('a, 'v, 'r) outcome = "(error + 'a) \<times> ('v, 'r) state"

definition translateMessageKeys ::
  "('v, 'r) state \<Rightarrow> (string \<times> string) list option \<Rightarrow> (string \<times> string) list option" where
  "translateMessageKeys s messages =
     (case messages of
        None \<Rightarrow> None
      | Some ms \<Rightarrow>
          (case cfg_localizationProvider (config s) of
             None \<Rightarrow> Some ms
           | Some p \<Rightarrow> Some (map (\<lambda>(key, _). (key, translate p key)) ms)))"

definition selectLang :: "('v, 'r) state \<Rightarrow> ('v, 'r) state" where
  "selectLang s =
     (case cfg_localizationProvider (config s) of
        None \<Rightarrow> s
      | Some p \<Rightarrow>
          (case language p of
             None \<Rightarrow> s
           | Some lang \<Rightarrow> if lang \<noteq> [] \<and> length lang \<ge> 2
                          then s\<lparr>defaultLang := take 2 lang\<rparr> else s))"

definition modelInput :: "('v, 'r) state \<Rightarrow> (field \<rightharpoonup> 'v) option" where
  "modelInput s =
     (case model s of
        Object r \<Rightarrow>
          (case heap s r of
             ObservableMap m \<Rightarrow> Some m
           | ObservableObject obj \<Rightarrow> Some obj
           | PlainObject obj \<Rightarrow> Some obj
           | Other obj \<Rightarrow> Some obj)
      | _ \<Rightarrow> None)"

definition createValidation :: "('v, 'r) state \<Rightarrow> ('v, 'r) validator \<times> ('v, 'r) state" where
  "createValidation s =
     (let s1 = selectLang s;
          customMessages = translateMessageKeys s1 (customErrors (config s1));
          validator = \<lparr>a_lang = defaultLang s1, a_input = modelInput s1,
                       a_rules = rules (config s1), a_customMessages = customMessages,
                       a_attributeNames =
                         (case attributeNames (config s1) of
                            None \<Rightarrow> None
                          | Some names \<Rightarrow> translateMessageKeys s1 (Some names))\<rparr>
      in (validator, s1))"

definition check :: "('v, 'r) evaluator \<Rightarrow> ('v, 'r) validator \<Rightarrow> error + validation" where
  "check E validator = E validator"

definition reset :: "('v, 'r) evaluator \<Rightarrow> ('v, 'r) state \<Rightarrow> (unit, 'v, 'r) outcome" where
  "reset E s =
     (case createValidation s of
        (validator, s1) \<Rightarrow>
          (case check E validator of
             Inl e \<Rightarrow> (Inl e, s1)
           | Inr v \<Rightarrow>
               (Inr (),
                s1\<lparr>mapStore := (mapStore s1)
                       (validatedFields s1 := Map_clear (mapStore s1 (validatedFields s1))),
                   validation := v, dirty := False\<rparr>)))"

text \<open>The field \<^verbatim>\<open>model\<close> is declared \<^verbatim>\<open>@observable\<close>: an assignment to it goes
  through MobX's deep enhancer, which stores an observable value as it is and a plain
  object as a new observable object with the same properties; anything else is stored
  as it is.\<close>

definition deepEnhancer :: "model_ref \<Rightarrow> ('v, 'r) state \<Rightarrow> model_ref \<times> ('v, 'r) state" where
  "deepEnhancer v s =
     (case v of
        Object r \<Rightarrow>
          (case heap s r of
             PlainObject obj \<Rightarrow>
               (Object (next_ref s),
                s\<lparr>heap := (heap s)(next_ref s := ObservableObject obj),
                  next_ref := Suc (next_ref s)\<rparr>)
           | _ \<Rightarrow> (v, s))
      | _ \<Rightarrow> (v, s))"

text \<open>MobX's \<^verbatim>\<open>observe(thing, listener)\<close> on an object: it installs the listener on an
  observable object or map, and throws on anything else.\<close>

definition observe :: "ref \<Rightarrow> ('v, 'r) state \<Rightarrow> error + ('v, 'r) state" where
  "observe r s =
     (case heap s r of
        ObservableObject _ \<Rightarrow> Inr (s\<lparr>observed := observed s @ [r]\<rparr>)
      | ObservableMap _ \<Rightarrow> Inr (s\<lparr>observed := observed s @ [r]\<rparr>)
      | _ \<Rightarrow> Inl MobxError)"

definition setModel ::
  "('v, 'r) evaluator \<Rightarrow> model_ref \<Rightarrow> ('v, 'r) state \<Rightarrow> (unit, 'v, 'r) outcome" where
  "setModel E m s =
     (if model s \<noteq> m then
        (case deepEnhancer m s of
           (stored, s0) \<Rightarrow>
             let s1 = s0\<lparr>model := stored\<rparr>;
                 s2 = (case disposer s1 of
                         Some r \<Rightarrow> s1\<lparr>observed := remove1 r (observed s1), disposer := None\<rparr>
                       | None \<Rightarrow> s1)
             in (case model s2 of
                   Object r \<Rightarrow>
                     if \<not> manual (config s2)
                     then (case observe r s2 of
                             Inl e \<Rightarrow> (Inl e, s2)
                           | Inr s3 \<Rightarrow> reset E (s3\<lparr>disposer := Some r\<rparr>))
                     else reset E s2
                 | _ \<Rightarrow> reset E s2))
      else (Inr (), s))"

definition setRules :: "('v, 'r) evaluator \<Rightarrow> 'r \<Rightarrow> ('v, 'r) state \<Rightarrow> (unit, 'v, 'r) outcome" where
  "setRules E r s = reset E (s\<lparr>config := (config s)\<lparr>rules := r\<rparr>\<rparr>)"

definition getModel :: "('v, 'r) state \<Rightarrow> model_ref" where
  "getModel s = model s"

definition errors :: "('v, 'r) state \<Rightarrow> (field \<times> string list) list" where
  "errors s = v_errors (validation s)"

definition errorCount :: "('v, 'r) state \<Rightarrow> nat" where
  "errorCount s = v_errorCount (validation s)"

definition markDirty :: "field \<Rightarrow> ('v, 'r) state \<Rightarrow> ('v, 'r) state" where
  "markDirty f s =
     (if \<not> Map_has (mapStore s (validatedFields s)) f
      then s\<lparr>mapStore := (mapStore s)
                 (validatedFields s := Map_set (mapStore s (validatedFields s)) f True),
             dirty := True\<rparr>
      else s)"

definition fieldValidated ::
  "field \<Rightarrow> validation \<Rightarrow> ('v, 'r) state \<Rightarrow> bool \<times> ('v, 'r) state" where
  "fieldValidated f v s =
     (let hasErrors = errors_has v f;
          s1 = markDirty f s;
          s2 = s1\<lparr>validation := v\<rparr>
      in (\<not> hasErrors, s2))"

definition validateField ::
  "('v, 'r) evaluator \<Rightarrow> field \<Rightarrow> ('v, 'r) state \<Rightarrow> (bool, 'v, 'r) outcome" where
  "validateField E f s =
     (case createValidation s of
        (validator, s1) \<Rightarrow>
          (case check E validator of
             Inl e \<Rightarrow> (Inl e, s1)
           | Inr v \<Rightarrow> (case fieldValidated f v s1 of (b, s2) \<Rightarrow> (Inr b, s2))))"

definition formValidated :: "validation \<Rightarrow> ('v, 'r) state \<Rightarrow> bool \<times> ('v, 'r) state" where
  "formValidated v s =
     (let s1 = fold markDirty (map fst (v_errors v)) s;
          s2 = s1\<lparr>validation := v\<rparr>
      in (errorCount s2 = 0, s2))"

definition validateForm :: "('v, 'r) evaluator \<Rightarrow> ('v, 'r) state \<Rightarrow> (bool, 'v, 'r) outcome" where
  "validateForm E s =
     (case createValidation s of
        (validator, s1) \<Rightarrow>
          (case check E validator of
             Inl e \<Rightarrow> (Inl e, s1)
           | Inr v \<Rightarrow> (case formValidated v s1 of (b, s2) \<Rightarrow> (Inr b, s2))))"

definition modelChanged ::
  "('v, 'r) evaluator \<Rightarrow> change \<Rightarrow> ('v, 'r) state \<Rightarrow> (unit, 'v, 'r) outcome" where
  "modelChanged E c s =
     (if change_type c = ''update'' \<or> change_type c = ''add'' then
        (case change_name c of
           Some n \<Rightarrow>
             if n \<noteq> []
             then (case validateField E n s of (r, s') \<Rightarrow> (map_sum id (\<lambda>_. ()) r, s'))
             else (case validateForm E s of (r, s') \<Rightarrow> (map_sum id (\<lambda>_. ()) r, s'))
         | None \<Rightarrow> (case validateForm E s of (r, s') \<Rightarrow> (map_sum id (\<lambda>_. ()) r, s')))
      else (Inr (), s))"

definition isValid :: "('v, 'r) state \<Rightarrow> bool" where
  "isValid s = (errorCount s = 0)"

definition showErrorsOnField :: "field \<Rightarrow> ('v, 'r) state \<Rightarrow> bool" where
  "showErrorsOnField f s = Map_has (mapStore s (validatedFields s)) f"

definition fieldsThatMayShowErrors :: "('v, 'r) state \<Rightarrow> ref" where
  "fieldsThatMayShowErrors s = validatedFields s"

definition pristine :: "('v, 'r) state \<Rightarrow> bool" where
  "pristine s = (\<not> dirty s)"

text \<open>The constructor, run in a world \<open>w\<close>: the field initialisers (a new empty map, a null
  model, nothing else assigned), the default provider, then \<^verbatim>\<open>setModel\<close> for a truthy
  \<^verbatim>\<open>config.model\<close> or a first check on no model. The field \<open>validation\<close> is
  unassigned until one of the two branches stores into it or raises; no method reads it
  before, and \<open>unassigned\<close> stands for it until then.\<close>

definition unassigned :: validation where
  "unassigned = \<lparr>v_errors = [], v_errorCount = 0\<rparr>"

definition fields_initialised :: "'r config \<Rightarrow> 'v world \<Rightarrow> ('v, 'r) state" where
  "fields_initialised cfg w =
     \<lparr>heap = heap w,
      mapStore = (mapStore w)(next_ref w := []),
      defaultLang = defaultLang w,
      observed = observed w,
      next_ref = Suc (next_ref w),
      validation = unassigned,
      model = Null,
      disposer = None,
      validatedFields = next_ref w,
      dirty = False,
      config = cfg\<rparr>"

definition constructor ::
  "('v, 'r) evaluator \<Rightarrow> string option \<Rightarrow> 'r config \<Rightarrow> 'v world \<Rightarrow> (unit, 'v, 'r) outcome" where
  "constructor E navigator_language cfg w =
     (let this = fields_initialised cfg w;
          this1 = (case cfg_localizationProvider (config this) of
                     None \<Rightarrow> this\<lparr>config := (config this)
                                \<lparr>cfg_localizationProvider :=
                                   Some (NoopLocalizationProvider navigator_language)\<rparr>\<rparr>
                   | Some _ \<Rightarrow> this)
      in (case cfg_model cfg of
            Object r \<Rightarrow> setModel E (cfg_model cfg) this1
          | _ \<Rightarrow>
              (case createValidation this1 of
                 (validator, this2) \<Rightarrow>
                   (case check E validator of
                      Inl e \<Rightarrow> (Inl e, this2)
                    | Inr v \<Rightarrow> (Inr (), this2\<lparr>validation := v\<rparr>)))))"

text \<open>What a caller can do with the map it got from \<^verbatim>\<open>fieldsThatMayShowErrors\<close>: the
  methods of \<^verbatim>\<open>Map\<close>, applied to the object at that address.\<close>

definition caller_set :: "ref \<Rightarrow> field \<Rightarrow> bool \<Rightarrow> ('v, 'r) state \<Rightarrow> ('v, 'r) state" where
  "caller_set a k b s = s\<lparr>mapStore := (mapStore s)(a := Map_set (mapStore s a) k b)\<rparr>"

definition caller_clear :: "ref \<Rightarrow> ('v, 'r) state \<Rightarrow> ('v, 'r) state" where
  "caller_clear a s = s\<lparr>mapStore := (mapStore s)(a := Map_clear (mapStore s a))\<rparr>"

text \<open>The outcome of rule evaluation in a state: the validator \<^verbatim>\<open>createValidation\<close>
  builds there, checked.\<close>

definition evaluation :: "('v, 'r) evaluator \<Rightarrow> ('v, 'r) state \<Rightarrow> error + validation" where
  "evaluation E s = check E (fst (createValidation s))"

section \<open>A small evaluator and states for the examples\<close>

text \<open>An instance of the parameter \<open>E\<close> for the concrete examples, after validatorjs on
  rule sets with one rule for each attribute, taken in their order. The rule
  \<^verbatim>\<open>required\<close> fails on an absent or empty value, with the message of validatorjs.
  Any other rule is skipped on an absent or empty value, as validatorjs skips the rules
  that are not implicit there, and raises on a value that is present, as validatorjs does
  for a rule that is not defined. Field values are strings without white space.\<close>

fun required_only :: "(field \<rightharpoonup> string) \<Rightarrow> (field \<times> string) list \<Rightarrow> error + validation" where
  "required_only input [] = Inr \<lparr>v_errors = [], v_errorCount = 0\<rparr>"
| "required_only input ((f, rule) # rs) =
     (if rule = ''required'' then
        (case required_only input rs of
           Inl e \<Rightarrow> Inl e
         | Inr v \<Rightarrow>
             if input f = None \<or> input f = Some []
             then Inr \<lparr>v_errors = (f, [''The '' @ f @ '' field is required.'']) # v_errors v,
                       v_errorCount = Suc (v_errorCount v)\<rparr>
             else Inr v)
      else if input f = None \<or> input f = Some [] then required_only input rs
      else Inl (ConfigurationError rule))"

definition example_E :: "(string, (field \<times> string) list) evaluator" where
  "example_E validator =
     required_only (case a_input validator of None \<Rightarrow> Map.empty | Some obj \<Rightarrow> obj)
       (a_rules validator)"

text \<open>Five objects: at address 0 an observable form with an empty name and no email, at
  addresses 1 and 2 observable forms with \<^verbatim>\<open>name\<close> and \<^verbatim>\<open>email\<close> filled in, at
  address 3 a plain object with both filled in, at address 4 an instance of a class that
  MobX cannot observe.\<close>

definition example_world :: "string world" where
  "example_world =
     \<lparr>heap = (\<lambda>r. if r = 0 then ObservableObject [''name'' \<mapsto> []]
                   else if r = 1
                   then ObservableObject [''name'' \<mapsto> ''Tim'', ''email'' \<mapsto> ''t@d.du'']
                   else if r = 2
                   then ObservableObject [''name'' \<mapsto> ''Ann'', ''email'' \<mapsto> ''a@d.du'']
                   else if r = 3
                   then PlainObject [''name'' \<mapsto> ''Tim'', ''email'' \<mapsto> ''t@d.du'']
                   else Other [''name'' \<mapsto> ''Bob'', ''email'' \<mapsto> ''b@d.du'']),
      mapStore = (\<lambda>_. []),
      defaultLang = ''en'',
      observed = [],
      next_ref = 5\<rparr>"

definition example_config :: "model_ref \<Rightarrow> (field \<times> string) list config" where
  "example_config m =
     \<lparr>cfg_model = m,
      rules = [(''name'', ''required''), (''email'', ''required'')],
      customErrors = None,
      attributeNames = None,
      manual = False,
      cfg_localizationProvider = None\<rparr>"

text \<open>The instance built on the empty form, and the one built on the filled form.\<close>

definition example_invalid :: "(string, (field \<times> string) list) state" where
  "example_invalid =
     snd (constructor example_E (Some ''en-US'') (example_config (Object 0)) example_world)"

definition example_valid :: "(string, (field \<times> string) list) state" where
  "example_valid =
     snd (constructor example_E (Some ''en-US'') (example_config (Object 1)) example_world)"


text \<open>States reached from them: after \<^verbatim>\<open>validateField('name')\<close> on either instance, and
  after a \<^verbatim>\<open>setRules\<close> that puts a rule validatorjs does not know on the filled-in
  name, before and after \<^verbatim>\<open>validateField('name')\<close>.\<close>

definition example_dirty :: "(string, (field \<times> string) list) state" where
  "example_dirty = snd (validateField example_E ''name'' example_invalid)"

definition example_touched :: "(string, (field \<times> string) list) state" where
  "example_touched = snd (validateField example_E ''name'' example_valid)"

definition example_misconfigured :: "(string, (field \<times> string) list) state" where
  "example_misconfigured = snd (setRules example_E [(''name'', ''bogus'')] example_touched)"

definition example_unknown_rule :: "(string, (field \<times> string) list) state" where
  "example_unknown_rule = snd (setRules example_E [(''name'', ''bogus'')] example_valid)"

section \<open>Facts about the operations\<close>

lemma Map_set_keys: "fst ` set (Map_set m k b) = insert k (fst ` set m)"
proof (induction m)
  case Nil
  show ?case by simp
next
  case (Cons p m)
  obtain k' b' where p: "p = (k', b')" by (cases p)
  show ?case
  proof (cases "k' = k")
    case True
    then show ?thesis using p by simp
  next
    case False
    then show ?thesis using p Cons.IH by (simp add: insert_commute)
  qed
qed

lemma selectLang_fields:
  "heap (selectLang s) = heap s"
  "mapStore (selectLang s) = mapStore s"
  "observed (selectLang s) = observed s"
  "next_ref (selectLang s) = next_ref s"
  "validation (selectLang s) = validation s"
  "model (selectLang s) = model s"
  "disposer (selectLang s) = disposer s"
  "validatedFields (selectLang s) = validatedFields s"
  "dirty (selectLang s) = dirty s"
  "config (selectLang s) = config s"
  by (simp_all add: selectLang_def split: option.splits)

lemma selectLang_idem: "selectLang (selectLang s) = selectLang s"
  by (simp add: selectLang_def split: option.splits)

lemma selectLang_commute:
  "selectLang (s\<lparr>mapStore := ms, validation := v, dirty := d\<rparr>) =
   (selectLang s)\<lparr>mapStore := ms, validation := v, dirty := d\<rparr>"
  by (simp add: selectLang_def split: option.splits)

lemma createValidation_snd: "snd (createValidation s) = selectLang s"
  by (simp add: createValidation_def Let_def)

lemma modelInput_cong:
  "model s = model t \<Longrightarrow> heap s = heap t \<Longrightarrow> modelInput s = modelInput t"
  by (simp add: modelInput_def cong: model_ref.case_cong)

lemma translateMessageKeys_cong:
  "config s = config t \<Longrightarrow> translateMessageKeys s ms = translateMessageKeys t ms"
  by (simp add: translateMessageKeys_def cong: option.case_cong)

lemma modelInput_selectLang: "modelInput (selectLang s) = modelInput s"
  by (rule modelInput_cong) (simp_all add: selectLang_fields)

lemma translateMessageKeys_selectLang:
  "translateMessageKeys (selectLang s) ms = translateMessageKeys s ms"
  by (rule translateMessageKeys_cong) (simp add: selectLang_fields)

lemma translateMessageKeys_None: "translateMessageKeys s None = None"
  by (simp add: translateMessageKeys_def)

lemma createValidation_fst:
  "fst (createValidation s) =
     \<lparr>a_lang = defaultLang (selectLang s), a_input = modelInput s,
      a_rules = rules (config s),
      a_customMessages = translateMessageKeys s (customErrors (config s)),
      a_attributeNames = translateMessageKeys s (attributeNames (config s))\<rparr>"
  by (cases "attributeNames (config s)")
     (simp_all add: createValidation_def Let_def selectLang_fields modelInput_selectLang
        translateMessageKeys_selectLang translateMessageKeys_None)

lemma createValidation_eq: "createValidation s = (fst (createValidation s), selectLang s)"
  by (metis createValidation_snd prod.collapse)

lemma reset_eq:
  "reset E s =
     (case evaluation E s of
        Inl e \<Rightarrow> (Inl e, selectLang s)
      | Inr v \<Rightarrow> (Inr (), (selectLang s)\<lparr>mapStore := (mapStore s)(validatedFields s := []),
                                           validation := v, dirty := False\<rparr>))"
  unfolding reset_def evaluation_def
  by (subst createValidation_eq) (simp add: selectLang_fields Map_clear_def split: sum.splits)

lemma evaluation_cong:
  "model s = model t \<Longrightarrow> heap s = heap t \<Longrightarrow> config s = config t \<Longrightarrow>
   defaultLang s = defaultLang t \<Longrightarrow> evaluation E s = evaluation E t"
proof -
  assume a: "model s = model t" "heap s = heap t" "config s = config t"
    "defaultLang s = defaultLang t"
  have "defaultLang (selectLang s) = defaultLang (selectLang t)"
    using a by (simp add: selectLang_def split: option.splits)
  moreover have "modelInput s = modelInput t"
    using a by (intro modelInput_cong)
  moreover have "\<And>ms. translateMessageKeys s ms = translateMessageKeys t ms"
    using a by (intro translateMessageKeys_cong)
  ultimately show ?thesis
    using a by (simp add: evaluation_def createValidation_fst)
qed

lemma evaluation_frame:
  "evaluation E (s\<lparr>mapStore := ms, validation := v, dirty := d\<rparr>) = evaluation E s"
  by (rule evaluation_cong) simp_all

lemma evaluation_selectLang: "evaluation E (selectLang s) = evaluation E s"
  by (simp add: evaluation_def createValidation_fst selectLang_idem selectLang_fields
      modelInput_selectLang translateMessageKeys_selectLang)

lemma markDirty_fields:
  "heap (markDirty f s) = heap s"
  "defaultLang (markDirty f s) = defaultLang s"
  "observed (markDirty f s) = observed s"
  "next_ref (markDirty f s) = next_ref s"
  "validation (markDirty f s) = validation s"
  "model (markDirty f s) = model s"
  "disposer (markDirty f s) = disposer s"
  "validatedFields (markDirty f s) = validatedFields s"
  "config (markDirty f s) = config s"
  by (simp_all add: markDirty_def)

lemma ledger_markDirty: "ledger (markDirty f s) = insert f (ledger s)"
  by (simp add: ledger_def markDirty_def Map_has_def Map_set_keys insert_absorb)

lemma fold_markDirty_fields:
  "heap (fold markDirty fs s) = heap s"
  "defaultLang (fold markDirty fs s) = defaultLang s"
  "observed (fold markDirty fs s) = observed s"
  "validation (fold markDirty fs s) = validation s"
  "model (fold markDirty fs s) = model s"
  "disposer (fold markDirty fs s) = disposer s"
  "validatedFields (fold markDirty fs s) = validatedFields s"
  "config (fold markDirty fs s) = config s"
  by (induction fs arbitrary: s; simp add: markDirty_fields)+

lemma ledger_fold_markDirty: "ledger (fold markDirty fs s) = ledger s \<union> set fs"
  by (induction fs arbitrary: s) (auto simp add: ledger_markDirty)

lemma ledger_validation_update: "ledger (s\<lparr>validation := v\<rparr>) = ledger s"
  by (simp add: ledger_def)

lemma showErrorsOnField_ledger: "showErrorsOnField f s = (f \<in> ledger s)"
  by (simp add: showErrorsOnField_def ledger_def Map_has_def)

lemma validateForm_eq:
  "validateForm E s =
     (case evaluation E s of
        Inl e \<Rightarrow> (Inl e, selectLang s)
      | Inr v \<Rightarrow> (Inr (v_errorCount v = 0),
                  (fold markDirty (map fst (v_errors v)) (selectLang s))\<lparr>validation := v\<rparr>))"
  unfolding validateForm_def evaluation_def
  by (subst createValidation_eq)
     (simp add: formValidated_def errorCount_def Let_def split: sum.splits)

lemma validateField_eq:
  "validateField E f s =
     (case evaluation E s of
        Inl e \<Rightarrow> (Inl e, selectLang s)
      | Inr v \<Rightarrow> (Inr (\<not> errors_has v f), (markDirty f (selectLang s))\<lparr>validation := v\<rparr>))"
  unfolding validateField_def evaluation_def
  by (subst createValidation_eq)
     (simp add: fieldValidated_def Let_def split: sum.splits)




lemma evaluation_eq: "evaluation E s = E (fst (createValidation s))"
  by (simp add: evaluation_def check_def)

lemma evaluation_input_cong:
  assumes "modelInput s = modelInput t" "config s = config t" "defaultLang s = defaultLang t"
  shows "evaluation E s = evaluation E t"
proof -
  have "defaultLang (selectLang s) = defaultLang (selectLang t)"
    using assms by (simp add: selectLang_def split: option.splits)
  moreover have "\<And>ms. translateMessageKeys s ms = translateMessageKeys t ms"
    using assms by (intro translateMessageKeys_cong)
  ultimately show ?thesis
    using assms by (simp add: evaluation_def createValidation_fst)
qed

lemma deepEnhancer_fields:
  assumes "deepEnhancer m s = (stored, s0)"
  shows "mapStore s0 = mapStore s" "validatedFields s0 = validatedFields s"
    "config s0 = config s" "defaultLang s0 = defaultLang s" "disposer s0 = disposer s"
    "dirty s0 = dirty s" "validation s0 = validation s"
  using assms
  by (auto simp add: deepEnhancer_def split: model_ref.splits cell.splits)

lemma deepEnhancer_input:
  assumes "deepEnhancer m s = (stored, s0)"
  shows "modelInput (s0\<lparr>model := stored\<rparr>) = modelInput (s\<lparr>model := m\<rparr>)"
  using assms
  by (auto simp add: deepEnhancer_def modelInput_def split: model_ref.splits cell.splits)

lemma deepEnhancer_unobservable:
  assumes "deepEnhancer m s = (Object r, s0)" and "observe r t = Inl e" and "heap t = heap s0"
  shows "e = MobxError \<and> (\<exists>obj. m = Object r \<and> heap s r = Other obj)"
  using assms
  by (auto simp add: deepEnhancer_def observe_def split: model_ref.splits cell.splits if_splits)

lemma observe_fields:
  assumes "observe r s = Inr t"
  shows "mapStore t = mapStore s" "validatedFields t = validatedFields s"
    "config t = config s" "defaultLang t = defaultLang s" "heap t = heap s" "model t = model s"
  using assms by (auto simp add: observe_def split: cell.splits)

lemma setModel_new:
  assumes "model s \<noteq> m"
  shows "(\<exists>t. setModel E m s = reset E t \<and> validatedFields t = validatedFields s \<and>
              mapStore t = mapStore s \<and> config t = config s \<and>
              defaultLang t = defaultLang s \<and> modelInput t = modelInput (s\<lparr>model := m\<rparr>)) \<or>
         (\<exists>t r obj. setModel E m s = (Inl MobxError, t) \<and> m = Object r \<and>
              heap s r = Other obj \<and> \<not> manual (config s))"
proof -
  obtain stored s0 where e: "deepEnhancer m s = (stored, s0)"
    by fastforce
  define s1 where "s1 = s0\<lparr>model := stored\<rparr>"
  define s2 where "s2 =
    (case disposer s1 of
       Some r \<Rightarrow> s1\<lparr>observed := remove1 r (observed s1), disposer := None\<rparr>
     | None \<Rightarrow> s1)"
  have run: "setModel E m s =
    (case model s2 of
       Object r \<Rightarrow>
         if \<not> manual (config s2)
         then (case observe r s2 of
                 Inl e \<Rightarrow> (Inl e, s2)
               | Inr s3 \<Rightarrow> reset E (s3\<lparr>disposer := Some r\<rparr>))
         else reset E s2
     | _ \<Rightarrow> reset E s2)"
    unfolding setModel_def s2_def s1_def Let_def using assms e by simp
  have s2: "model s2 = stored" "heap s2 = heap s0" "mapStore s2 = mapStore s"
    "validatedFields s2 = validatedFields s" "config s2 = config s"
    "defaultLang s2 = defaultLang s"
    by (simp_all add: s2_def s1_def deepEnhancer_fields[OF e] split: option.splits)
  have input: "modelInput s2 = modelInput (s\<lparr>model := m\<rparr>)"
  proof -
    have "modelInput s2 = modelInput (s0\<lparr>model := stored\<rparr>)"
      by (rule modelInput_cong) (simp_all add: s2)
    then show ?thesis by (simp add: deepEnhancer_input[OF e])
  qed
  have plain: "?thesis" if "setModel E m s = reset E s2"
    using that s2 input by blast
  show ?thesis
  proof (cases stored)
    case Undefined
    then show ?thesis using run s2 plain by simp
  next
    case Null
    then show ?thesis using run s2 plain by simp
  next
    case (Object r)
    show ?thesis
    proof (cases "manual (config s)")
      case True
      then show ?thesis using run s2 Object plain by simp
    next
      case False
      show ?thesis
      proof (cases "observe r s2")
        case (Inl err)
        have "err = MobxError \<and> (\<exists>obj. m = Object r \<and> heap s r = Other obj)"
          using deepEnhancer_unobservable[OF e[unfolded Object] Inl s2(2)] .
        moreover have "setModel E m s = (Inl err, s2)"
          using run s2 Object False Inl by simp
        ultimately show ?thesis using False by blast
      next
        case (Inr s3)
        have r: "setModel E m s = reset E (s3\<lparr>disposer := Some r\<rparr>)"
          using run s2 Object False Inr by simp
        have "modelInput (s3\<lparr>disposer := Some r\<rparr>) = modelInput s2"
          by (rule modelInput_cong) (simp_all add: observe_fields[OF Inr])
        then show ?thesis
          using r s2 input observe_fields[OF Inr]
          by (intro disjI1 exI[of _ "s3\<lparr>disposer := Some r\<rparr>"]) simp
      qed
    qed
  qed
qed

lemma reset_success:
  assumes "reset E t = (Inr u, s')"
  shows "mapStore s' (validatedFields s') = []" "dirty s' = False"
    "evaluation E t = Inr (validation s')" "validatedFields s' = validatedFields t"
    "model s' = model t" "heap s' = heap t" "config s' = config t"
  using assms
  by (cases "evaluation E t"; auto simp add: reset_eq selectLang_fields)+


subsection \<open>The example states, evaluated\<close>

lemmas example_defs =
  constructor_def fields_initialised_def NoopLocalizationProvider_def setModel_def reset_def
  deepEnhancer_def observe_def createValidation_def selectLang_def translateMessageKeys_def
  modelInput_def check_def example_E_def example_world_def example_config_def Map_clear_def
  Let_def

lemmas example_validate_defs =
  validateField_def fieldValidated_def markDirty_def Map_has_def errors_has_def

lemma example_invalid_fields:
  "model example_invalid = Object 0"
  "heap example_invalid 0 = ObservableObject [''name'' \<mapsto> []]"
  "validatedFields example_invalid = 5"
  "mapStore example_invalid 5 = []"
  "validation example_invalid = \<lparr>v_errors = [(''name'', [''The name field is required.'']),
                     (''email'', [''The email field is required.''])],
          v_errorCount = 2\<rparr>"
  "dirty example_invalid = False"
  by (simp_all add: example_invalid_def example_defs)

lemma example_valid_fields:
  "model example_valid = Object 1"
  "validatedFields example_valid = 5"
  "mapStore example_valid 5 = []"
  "validation example_valid = \<lparr>v_errors = [], v_errorCount = 0\<rparr>"
  "dirty example_valid = False"
  by (simp_all add: example_valid_def example_defs)

lemma example_dirty_fields:
  "model example_dirty = Object 0"
  "validatedFields example_dirty = 5"
  "mapStore example_dirty 5 = [(''name'', True)]"
  "dirty example_dirty = True"
  by (simp_all add: example_dirty_def example_invalid_def example_defs example_validate_defs)

lemma example_touched_fields:
  "model example_touched = Object 1"
  "validatedFields example_touched = 5"
  "mapStore example_touched 5 = [(''name'', True)]"
  "validation example_touched = \<lparr>v_errors = [], v_errorCount = 0\<rparr>"
  by (simp_all add: example_touched_def example_valid_def example_defs example_validate_defs)

lemma example_misconfigured_fields:
  "model example_misconfigured = Object 1"
  "validatedFields example_misconfigured = 5"
  "mapStore example_misconfigured 5 = [(''name'', True)]"
  "dirty example_misconfigured = True"
  "rules (config example_misconfigured) = [(''name'', ''bogus'')]"
  by (simp_all add: example_misconfigured_def setRules_def example_touched_def example_valid_def
      example_defs example_validate_defs)


lemma example_evaluations:
  "evaluation example_E example_invalid = Inr \<lparr>v_errors = [(''name'', [''The name field is required.'']),
                     (''email'', [''The email field is required.''])],
          v_errorCount = 2\<rparr>"
  "evaluation example_E example_valid = Inr \<lparr>v_errors = [], v_errorCount = 0\<rparr>"
  "evaluation example_E example_dirty = Inr \<lparr>v_errors = [(''name'', [''The name field is required.'']),
                     (''email'', [''The email field is required.''])],
          v_errorCount = 2\<rparr>"
  "evaluation example_E example_misconfigured = Inl (ConfigurationError ''bogus'')"
  "evaluation example_E (example_misconfigured\<lparr>model := Object 2\<rparr>) =
     Inl (ConfigurationError ''bogus'')"
  "evaluation example_E
     (example_touched\<lparr>config := (config example_touched)\<lparr>rules := [(''name'', ''bogus'')]\<rparr>\<rparr>) =
     Inl (ConfigurationError ''bogus'')"
  "evaluation example_E example_unknown_rule = Inl (ConfigurationError ''bogus'')"
  by (simp_all add: evaluation_def example_misconfigured_def example_unknown_rule_def
      setRules_def example_dirty_def example_touched_def example_invalid_def example_valid_def
      example_defs example_validate_defs)

section \<open>The claims\<close>

text \<open>
  C1 (as the code has it). \<^verbatim>\<open>setModel(newModel)\<close> with a \<open>newModel\<close> that is not the
  reference the instance holds, when the call returns (neither \<^verbatim>\<open>observe\<close> nor the rule
  evaluation raises), leaves the map of validated fields empty and the instance
  pristine, whatever the state before. Nothing is said of the errors of the two models,
  so the same error set changes nothing.
\<close>

theorem setModel_resets_ledger:
  assumes "model s \<noteq> m" and "setModel E m s = (Inr u, s')"
  shows "mapStore s' (fieldsThatMayShowErrors s') = [] \<and> ledger s' = {} \<and>
         dirty s' = False \<and> pristine s'"
proof -
  from setModel_new[OF assms(1), of E] assms(2)
  obtain t where "reset E t = (Inr u, s')"
    by auto
  from reset_success(1,2)[OF this] show ?thesis
    by (simp add: fieldsThatMayShowErrors_def ledger_def pristine_def)
qed

theorem setModel_resets_ledger_witness:
  "model example_dirty \<noteq> Object 3 \<and>
   fst (setModel example_E (Object 3) example_dirty) = Inr () \<and>
   ledger example_dirty = {''name''} \<and>
   ledger (snd (setModel example_E (Object 3) example_dirty)) = {} \<and>
   pristine (snd (setModel example_E (Object 3) example_dirty))"
proof -
  have h1: "model example_dirty \<noteq> Object 3"
    by (simp add: example_dirty_fields)
  have h2: "fst (setModel example_E (Object 3) example_dirty) = Inr ()"
    by (simp add: example_dirty_def example_invalid_def example_defs example_validate_defs)
  then have h3: "setModel example_E (Object 3) example_dirty =
      (Inr (), snd (setModel example_E (Object 3) example_dirty))"
    by (metis prod.collapse)
  have h4: "ledger example_dirty = {''name''}"
    by (simp add: ledger_def example_dirty_fields)
  show ?thesis
    using h1 h2 h4 setModel_resets_ledger[OF h1 h3] by simp
qed

text \<open>
  C1 as stated fails in two ways. Handing \<^verbatim>\<open>setModel\<close> the very model the instance
  holds (here the form at address 0, after \<^verbatim>\<open>validateField('name')\<close>) leaves
  \<^verbatim>\<open>name\<close> in the map and the instance dirty. And a \<^verbatim>\<open>setModel\<close> with another model
  whose evaluation raises (the rules put an unknown rule on its filled-in name) leaves
  \<^verbatim>\<open>name\<close> in the map as well.
\<close>

theorem setModel_same_model_keeps_ledger:
  "model example_dirty = Object 0 \<and>
   ledger (snd (setModel example_E (Object 0) example_dirty)) = {''name''} \<and>
   \<not> pristine (snd (setModel example_E (Object 0) example_dirty)) \<and>
   model example_misconfigured \<noteq> Object 2 \<and>
   fst (setModel example_E (Object 2) example_misconfigured) =
     Inl (ConfigurationError ''bogus'') \<and>
   ledger (snd (setModel example_E (Object 2) example_misconfigured)) = {''name''}"
proof -
  have "setModel example_E (Object 0) example_dirty = (Inr (), example_dirty)"
    by (simp add: setModel_def example_dirty_fields)
  moreover have "ledger example_dirty = {''name''}" "\<not> pristine example_dirty"
    by (simp_all add: ledger_def pristine_def example_dirty_fields)
  moreover have "fst (setModel example_E (Object 2) example_misconfigured) =
      Inl (ConfigurationError ''bogus'')"
    "ledger (snd (setModel example_E (Object 2) example_misconfigured)) = {''name''}"
    by (simp_all add: ledger_def example_misconfigured_def setRules_def example_touched_def
        example_valid_def example_defs example_validate_defs)
  ultimately show ?thesis
    by (simp add: example_dirty_fields example_misconfigured_fields)
qed

text \<open>
  C2. When \<^verbatim>\<open>validateForm()\<close> returns, the stored validation is the fresh evaluation of
  the model, and every field that is a key of its error map is in the map that
  \<^verbatim>\<open>fieldsThatMayShowErrors\<close> returns, so that \<^verbatim>\<open>showErrorsOnField\<close> holds for it,
  whatever the map held before the call.
\<close>

theorem validateForm_marks_error_fields:
  assumes "validateForm E s = (Inr b, s')"
  shows "evaluation E s = Inr (validation s') \<and>
         (\<forall>f \<in> set (map fst (errors s')).
            Map_has (mapStore s' (fieldsThatMayShowErrors s')) f \<and> showErrorsOnField f s')"
proof (cases "evaluation E s")
  case (Inl e)
  then show ?thesis using assms by (simp add: validateForm_eq)
next
  case (Inr v)
  then have s': "s' = (fold markDirty (map fst (v_errors v)) (selectLang s))\<lparr>validation := v\<rparr>"
    using assms by (simp add: validateForm_eq)
  have "set (map fst (v_errors v)) \<subseteq> ledger s'"
    by (simp add: s' ledger_validation_update ledger_fold_markDirty)
  moreover have "errors s' = v_errors v" "validation s' = v"
    by (simp_all add: s' errors_def)
  ultimately show ?thesis
    using Inr
    by (auto simp add: showErrorsOnField_ledger[unfolded showErrorsOnField_def]
        showErrorsOnField_ledger fieldsThatMayShowErrors_def)
qed

theorem validateForm_marks_error_fields_witness:
  "fst (validateForm example_E example_invalid) = Inr False \<and>
   ledger example_invalid = {} \<and>
   map fst (errors (snd (validateForm example_E example_invalid))) = [''name'', ''email''] \<and>
   showErrorsOnField ''name'' (snd (validateForm example_E example_invalid)) \<and>
   showErrorsOnField ''email'' (snd (validateForm example_E example_invalid))"
proof -
  have h1: "fst (validateForm example_E example_invalid) = Inr False"
    by (simp add: validateForm_eq example_evaluations)
  then have h: "validateForm example_E example_invalid =
      (Inr False, snd (validateForm example_E example_invalid))"
    by (metis prod.collapse)
  have e: "map fst (errors (snd (validateForm example_E example_invalid))) = [''name'', ''email'']"
    by (simp add: validateForm_eq example_evaluations errors_def)
  have l: "ledger example_invalid = {}"
    by (simp add: ledger_def example_invalid_fields)
  show ?thesis
    using h1 e l validateForm_marks_error_fields[OF h] by simp
qed

text \<open>
  C3. \<^verbatim>\<open>showErrorsOnField(f)\<close> is true exactly when \<open>f\<close> is a key of the map of validated
  fields, and it does not read the stored validation: replacing the validation leaves it
  as it is. So it is false for a field outside the map that has an error (\<^verbatim>\<open>name\<close> on
  the freshly built instance over the empty form), and true for a field in the map that
  has none (\<^verbatim>\<open>name\<close> after \<^verbatim>\<open>validateField('name')\<close> on the filled form).
\<close>

theorem showErrorsOnField_iff_ledger:
  "showErrorsOnField f s = (f \<in> ledger s) \<and>
   showErrorsOnField f (s\<lparr>validation := v\<rparr>) = showErrorsOnField f s \<and>
   (errors_has (validation example_invalid) ''name'' \<and>
    showErrorsOnField ''name'' example_invalid = False) \<and>
   (showErrorsOnField ''name'' example_touched = True \<and>
    errors_has (validation example_touched) ''name'' = False)"
  by (simp add: showErrorsOnField_ledger ledger_validation_update)
     (simp add: ledger_def errors_has_def example_invalid_fields example_touched_fields)




text \<open>
  C5. A model satisfies the rules when the evaluation of the validator built on it counts
  no failure. Then \<^verbatim>\<open>validateForm()\<close> returns true, stores that evaluation, and
  \<^verbatim>\<open>isValid\<close> is true and \<^verbatim>\<open>errorCount\<close> is 0 in the state it leaves. In general,
  whenever \<^verbatim>\<open>validateForm()\<close> returns, the stored validation is the fresh evaluation,
  the returned value says whether the count of that evaluation is 0, and
  \<^verbatim>\<open>errorCount\<close> and \<^verbatim>\<open>isValid\<close> read that count.
\<close>

theorem validateForm_valid:
  "(E (fst (createValidation s)) = Inr v \<and> v_errorCount v = 0 \<longrightarrow>
      (\<exists>s'. validateForm E s = (Inr True, s') \<and> validation s' = v \<and>
            isValid s' \<and> errorCount s' = 0)) \<and>
   (validateForm E s = (Inr b, s') \<longrightarrow>
      E (fst (createValidation s)) = Inr (validation s') \<and>
      b = (v_errorCount (validation s') = 0) \<and>
      errorCount s' = v_errorCount (validation s') \<and>
      isValid s' = (v_errorCount (validation s') = 0))"
  by (cases "evaluation E s")
     (auto simp add: validateForm_eq isValid_def errorCount_def evaluation_eq)

theorem validateForm_valid_witness:
  "example_E (fst (createValidation example_valid)) = Inr \<lparr>v_errors = [], v_errorCount = 0\<rparr> \<and>
   fst (validateForm example_E example_valid) = Inr True \<and>
   isValid (snd (validateForm example_E example_valid)) \<and>
   errorCount (snd (validateForm example_E example_valid)) = 0 \<and>
   example_E (fst (createValidation example_invalid)) = Inr \<lparr>v_errors = [(''name'', [''The name field is required.'']),
                     (''email'', [''The email field is required.''])],
          v_errorCount = 2\<rparr> \<and>
   fst (validateForm example_E example_invalid) = Inr False \<and>
   \<not> isValid (snd (validateForm example_E example_invalid)) \<and>
   errorCount (snd (validateForm example_E example_invalid)) = 2"
proof -
  have e1: "example_E (fst (createValidation example_valid)) =
      Inr \<lparr>v_errors = [], v_errorCount = 0\<rparr>"
    using example_evaluations(2) by (simp add: evaluation_eq)
  have e2: "example_E (fst (createValidation example_invalid)) = Inr \<lparr>v_errors = [(''name'', [''The name field is required.'']),
                     (''email'', [''The email field is required.''])],
          v_errorCount = 2\<rparr>"
    using example_evaluations(1) by (simp add: evaluation_eq)
  have h1: "fst (validateForm example_E example_valid) = Inr True"
    by (simp add: validateForm_eq example_evaluations)
  then have h2: "validateForm example_E example_valid =
      (Inr True, snd (validateForm example_E example_valid))"
    by (metis prod.collapse)
  have h3: "fst (validateForm example_E example_invalid) = Inr False"
    by (simp add: validateForm_eq example_evaluations)
  then have h4: "validateForm example_E example_invalid =
      (Inr False, snd (validateForm example_E example_invalid))"
    by (metis prod.collapse)
  show ?thesis
    using e1 e2 h1 h2 h3 h4
      validateForm_valid[of example_E example_valid "\<lparr>v_errors = [], v_errorCount = 0\<rparr>"
        True "snd (validateForm example_E example_valid)"]
      validateForm_valid[of example_E example_invalid "\<lparr>v_errors = [(''name'', [''The name field is required.'']),
                     (''email'', [''The email field is required.''])],
          v_errorCount = 2\<rparr>"
        False "snd (validateForm example_E example_invalid)"]
    by auto
qed

text \<open>
  C6 (as the code has it). \<^verbatim>\<open>reset()\<close> is idempotent: run on the state a first
  \<^verbatim>\<open>reset()\<close> left, it returns or raises as the first did and leaves that state as it
  found it. When \<^verbatim>\<open>reset()\<close> returns, that state has an empty map of validated fields,
  is pristine, and stores the evaluation of the validator built on the model and rules,
  which are unchanged, so that the evaluation in the new state is the stored one again.
  When the evaluation raises, \<^verbatim>\<open>reset()\<close> raises the same and the map, the dirty flag and
  the stored validation are as before.
\<close>

theorem reset_idempotent:
  "reset E (snd (reset E s)) = reset E s \<and>
   (reset E s = (Inr u, s') \<longrightarrow>
      mapStore s' (validatedFields s') = [] \<and> ledger s' = {} \<and>
      dirty s' = False \<and> pristine s' \<and>
      E (fst (createValidation s)) = Inr (validation s') \<and>
      E (fst (createValidation s')) = Inr (validation s') \<and>
      model s' = model s \<and> heap s' = heap s \<and> config s' = config s) \<and>
   (E (fst (createValidation s)) = Inl e \<longrightarrow>
      fst (reset E s) = Inl e \<and>
      mapStore (snd (reset E s)) = mapStore s \<and>
      validatedFields (snd (reset E s)) = validatedFields s \<and>
      dirty (snd (reset E s)) = dirty s \<and>
      validation (snd (reset E s)) = validation s)"
proof -
  have idem: "reset E (snd (reset E s)) = reset E s"
  proof (cases "evaluation E s")
    case (Inl e)
    then show ?thesis
      by (simp add: reset_eq evaluation_selectLang selectLang_idem)
  next
    case (Inr v)
    then show ?thesis
      by (simp add: reset_eq evaluation_selectLang evaluation_frame selectLang_idem
          selectLang_commute selectLang_fields)
  qed
  show ?thesis
  proof (intro conjI impI)
  show "reset E (snd (reset E s)) = reset E s"
    by (rule idem)
next
  assume r: "reset E s = (Inr u, s')"
  note facts = reset_success[OF r]
  show "mapStore s' (validatedFields s') = []" "dirty s' = False"
    "model s' = model s" "heap s' = heap s" "config s' = config s"
    by (rule facts)+
  show "ledger s' = {}" "pristine s'"
    using facts(1,2) by (simp_all add: ledger_def pristine_def)
  show first: "E (fst (createValidation s)) = Inr (validation s')"
    using facts(3) by (simp add: evaluation_eq)
  have "reset E s' = reset E s"
    using idem r by simp
  then have "reset E s' = (Inr u, s')"
    using r by simp
  from reset_success(3)[OF this]
  show "E (fst (createValidation s')) = Inr (validation s')"
    by (simp add: evaluation_eq)
next
  assume "E (fst (createValidation s)) = Inl e"
  then have "evaluation E s = Inl e"
    by (simp add: evaluation_eq)
  then show "fst (reset E s) = Inl e"
    "mapStore (snd (reset E s)) = mapStore s"
    "validatedFields (snd (reset E s)) = validatedFields s"
    "dirty (snd (reset E s)) = dirty s"
    "validation (snd (reset E s)) = validation s"
    by (simp_all add: reset_eq selectLang_fields)
qed
qed

theorem reset_idempotent_witness:
  "fst (reset example_E example_dirty) = Inr () \<and>
   ledger example_dirty = {''name''} \<and>
   ledger (snd (reset example_E example_dirty)) = {} \<and>
   pristine (snd (reset example_E example_dirty)) \<and>
   validation (snd (reset example_E example_dirty)) = \<lparr>v_errors = [(''name'', [''The name field is required.'']),
                     (''email'', [''The email field is required.''])],
          v_errorCount = 2\<rparr> \<and>
   reset example_E (snd (reset example_E example_dirty)) = reset example_E example_dirty \<and>
   example_E (fst (createValidation example_misconfigured)) =
     Inl (ConfigurationError ''bogus'') \<and>
   fst (reset example_E example_misconfigured) = Inl (ConfigurationError ''bogus'') \<and>
   dirty (snd (reset example_E example_misconfigured)) = True"
proof -
  have h1: "fst (reset example_E example_dirty) = Inr ()"
    by (simp add: reset_eq example_evaluations)
  then have h2: "reset example_E example_dirty = (Inr (), snd (reset example_E example_dirty))"
    by (metis prod.collapse)
  have h3: "ledger example_dirty = {''name''}"
    by (simp add: ledger_def example_dirty_fields)
  have h4: "validation (snd (reset example_E example_dirty)) = \<lparr>v_errors = [(''name'', [''The name field is required.'']),
                     (''email'', [''The email field is required.''])],
          v_errorCount = 2\<rparr>"
    by (simp add: reset_eq example_evaluations)
  have h5: "example_E (fst (createValidation example_misconfigured)) =
      Inl (ConfigurationError ''bogus'')"
    using example_evaluations(4) by (simp add: evaluation_eq)
  have h6: "dirty example_misconfigured = True"
    by (rule example_misconfigured_fields(4))
  show ?thesis
    using h1 h3 h4 h5 h6
      reset_idempotent[of example_E example_dirty "()" "snd (reset example_E example_dirty)"]
      reset_idempotent[of example_E example_misconfigured "()"
        "snd (reset example_E example_dirty)" "ConfigurationError ''bogus''"]
      h2
    by auto
qed

text \<open>
  C6 as stated fails where the evaluation raises: on the instance whose rules put an
  unknown rule on the filled-in name, after \<^verbatim>\<open>validateField('name')\<close>, one
  \<^verbatim>\<open>reset()\<close> and two in succession both raise and leave \<^verbatim>\<open>name\<close> in the map and the
  instance dirty.
\<close>

theorem reset_raising_keeps_ledger:
  "fst (reset example_E example_misconfigured) = Inl (ConfigurationError ''bogus'') \<and>
   fst (reset example_E (snd (reset example_E example_misconfigured))) =
     Inl (ConfigurationError ''bogus'') \<and>
   ledger (snd (reset example_E (snd (reset example_E example_misconfigured)))) = {''name''} \<and>
   \<not> pristine (snd (reset example_E (snd (reset example_E example_misconfigured))))"
  by (simp add: reset_eq example_evaluations evaluation_selectLang)
     (simp add: ledger_def pristine_def selectLang_fields example_misconfigured_fields)

text \<open>
  C7 (as the code has it). The getter \<^verbatim>\<open>fieldsThatMayShowErrors\<close> returns the very map
  the instance keeps, not a copy or a read-only view: a \<^verbatim>\<open>set(k, b)\<close> by the caller on
  what it returned puts \<open>k\<close> among the validated fields, so that
  \<^verbatim>\<open>showErrorsOnField(k)\<close> holds, and a \<^verbatim>\<open>clear()\<close> empties them.
\<close>

theorem fieldsThatMayShowErrors_is_the_map:
  "fieldsThatMayShowErrors s = validatedFields s \<and>
   ledger (caller_set (fieldsThatMayShowErrors s) k b s) = insert k (ledger s) \<and>
   showErrorsOnField k (caller_set (fieldsThatMayShowErrors s) k b s) \<and>
   ledger (caller_clear (fieldsThatMayShowErrors s) s) = {}"
  by (simp add: fieldsThatMayShowErrors_def caller_set_def caller_clear_def ledger_def
      showErrorsOnField_def Map_has_def Map_clear_def Map_set_keys)

text \<open>
  C7 as stated fails: on the freshly built instance over the filled form, \<^verbatim>\<open>email\<close> may
  not show errors; after the caller's \<^verbatim>\<open>set('email', true)\<close> on the returned map it may.
\<close>

theorem caller_write_reaches_ledger:
  "showErrorsOnField ''email'' example_valid = False \<and>
   showErrorsOnField ''email''
     (caller_set (fieldsThatMayShowErrors example_valid) ''email'' True example_valid) = True"
  by (simp add: showErrorsOnField_def fieldsThatMayShowErrors_def caller_set_def Map_has_def
      example_valid_fields)

text \<open>
  C8. No method catches what the evaluation raises. If the evaluation in the current
  state raises \<open>e\<close>, so do \<^verbatim>\<open>validateField\<close> and \<^verbatim>\<open>validateForm\<close>; if the evaluation
  of a model other than the one held raises \<open>e\<close>, so does \<^verbatim>\<open>setModel\<close> of that model,
  provided it gets as far as the evaluation (the model is null, undefined, an observable
  or a plain object, or the configuration is manual); if the evaluation under new rules
  raises \<open>e\<close>, so does \<^verbatim>\<open>setRules\<close> of those rules. Where \<^verbatim>\<open>setModel\<close> does not get as
  far, it is \<^verbatim>\<open>observe\<close> that raises, and \<^verbatim>\<open>setModel\<close> raises that.
\<close>

theorem ConfigurationError_propagates:
  "(evaluation E s = Inl e \<longrightarrow>
      fst (validateField E f s) = Inl e \<and> fst (validateForm E s) = Inl e) \<and>
   (model s \<noteq> m \<and> evaluation E (s\<lparr>model := m\<rparr>) = Inl e \<and>
    (m = Null \<or> m = Undefined \<or> manual (config s) \<or>
     (\<exists>a obj. m = Object a \<and>
        (heap s a = ObservableObject obj \<or> heap s a = ObservableMap obj \<or>
         heap s a = PlainObject obj))) \<longrightarrow>
      fst (setModel E m s) = Inl e) \<and>
   (model s \<noteq> m \<and> \<not> manual (config s) \<and> m = Object a \<and> heap s a = Other obj \<longrightarrow>
      fst (setModel E m s) = Inl MobxError) \<and>
   (evaluation E (s\<lparr>config := (config s)\<lparr>rules := r\<rparr>\<rparr>) = Inl e \<longrightarrow>
      fst (setRules E r s) = Inl e)"
proof (intro conjI impI)
  assume "evaluation E s = Inl e"
  then show "fst (validateField E f s) = Inl e" "fst (validateForm E s) = Inl e"
    by (simp_all add: validateField_eq validateForm_eq)
next
  assume a: "model s \<noteq> m \<and> evaluation E (s\<lparr>model := m\<rparr>) = Inl e \<and>
    (m = Null \<or> m = Undefined \<or> manual (config s) \<or>
     (\<exists>a obj. m = Object a \<and>
        (heap s a = ObservableObject obj \<or> heap s a = ObservableMap obj \<or>
         heap s a = PlainObject obj)))"
  then have "\<not> (\<exists>t r obj. setModel E m s = (Inl MobxError, t) \<and> m = Object r \<and>
      heap s r = Other obj \<and> \<not> manual (config s))"
    by auto
  with a setModel_new[of s m E]
  obtain t where t: "setModel E m s = reset E t" "config t = config s"
      "defaultLang t = defaultLang s" "modelInput t = modelInput (s\<lparr>model := m\<rparr>)"
    by blast
  have "evaluation E t = evaluation E (s\<lparr>model := m\<rparr>)"
    by (rule evaluation_input_cong) (simp_all add: t)
  then have "evaluation E t = Inl e"
    using a by simp
  then show "fst (setModel E m s) = Inl e"
    by (simp add: t(1) reset_eq)
next
  assume a: "model s \<noteq> m \<and> \<not> manual (config s) \<and> m = Object a \<and> heap s a = Other obj"
  then show "fst (setModel E m s) = Inl MobxError"
    by (cases "disposer s")
       (auto simp add: setModel_def deepEnhancer_def observe_def Let_def)
next
  assume "evaluation E (s\<lparr>config := (config s)\<lparr>rules := r\<rparr>\<rparr>) = Inl e"
  then show "fst (setRules E r s) = Inl e"
    by (simp add: setRules_def reset_eq)
qed

theorem ConfigurationError_propagates_witness:
  "evaluation example_E example_misconfigured = Inl (ConfigurationError ''bogus'') \<and>
   fst (validateField example_E ''name'' example_misconfigured) =
     Inl (ConfigurationError ''bogus'') \<and>
   fst (validateForm example_E example_misconfigured) = Inl (ConfigurationError ''bogus'') \<and>
   model example_misconfigured \<noteq> Object 2 \<and>
   heap example_misconfigured 2 =
     ObservableObject [''name'' \<mapsto> ''Ann'', ''email'' \<mapsto> ''a@d.du''] \<and>
   evaluation example_E (example_misconfigured\<lparr>model := Object 2\<rparr>) =
     Inl (ConfigurationError ''bogus'') \<and>
   fst (setModel example_E (Object 2) example_misconfigured) =
     Inl (ConfigurationError ''bogus'') \<and>
   model example_misconfigured \<noteq> Object 4 \<and>
   \<not> manual (config example_misconfigured) \<and>
   heap example_misconfigured 4 = Other [''name'' \<mapsto> ''Bob'', ''email'' \<mapsto> ''b@d.du''] \<and>
   fst (setModel example_E (Object 4) example_misconfigured) = Inl MobxError \<and>
   evaluation example_E example_touched = Inr \<lparr>v_errors = [], v_errorCount = 0\<rparr> \<and>
   evaluation example_E (example_touched\<lparr>config := (config example_touched)
      \<lparr>rules := [(''name'', ''bogus'')]\<rparr>\<rparr>) = Inl (ConfigurationError ''bogus'') \<and>
   fst (setRules example_E [(''name'', ''bogus'')] example_touched) =
     Inl (ConfigurationError ''bogus'')"
proof -
  have h1: "evaluation example_E example_misconfigured = Inl (ConfigurationError ''bogus'')"
    by (rule example_evaluations(4))
  have h2: "model example_misconfigured \<noteq> Object 2" "model example_misconfigured \<noteq> Object 4"
    by (simp_all add: example_misconfigured_fields)
  have h3: "evaluation example_E (example_misconfigured\<lparr>model := Object 2\<rparr>) =
      Inl (ConfigurationError ''bogus'')"
    by (rule example_evaluations(5))
  have h4: "evaluation example_E (example_touched\<lparr>config := (config example_touched)
      \<lparr>rules := [(''name'', ''bogus'')]\<rparr>\<rparr>) = Inl (ConfigurationError ''bogus'')"
    by (rule example_evaluations(6))
  have h5: "evaluation example_E example_touched = Inr \<lparr>v_errors = [], v_errorCount = 0\<rparr>"
    by (simp add: evaluation_def example_touched_def example_valid_def example_defs
        example_validate_defs)
  have h6: "heap example_misconfigured 2 =
      ObservableObject [''name'' \<mapsto> ''Ann'', ''email'' \<mapsto> ''a@d.du'']"
    "heap example_misconfigured 4 = Other [''name'' \<mapsto> ''Bob'', ''email'' \<mapsto> ''b@d.du'']"
    "\<not> manual (config example_misconfigured)"
    by (simp_all add: example_misconfigured_def setRules_def example_touched_def
        example_valid_def example_defs example_validate_defs)
  have h7: "\<exists>a obj. Object 2 = Object a \<and>
      (heap example_misconfigured a = ObservableObject obj \<or>
       heap example_misconfigured a = ObservableMap obj \<or>
       heap example_misconfigured a = PlainObject obj)"
    using h6(1) by blast
  show ?thesis
    using h1 h2 h3 h4 h5 h6 h7
      ConfigurationError_propagates[of example_E example_misconfigured
        "ConfigurationError ''bogus''" "''name''" "Object 2" 4
        "[''name'' \<mapsto> ''Bob'', ''email'' \<mapsto> ''b@d.du'']"]
      ConfigurationError_propagates[of example_E example_misconfigured
        "ConfigurationError ''bogus''" "''name''" "Object 4" 4
        "[''name'' \<mapsto> ''Bob'', ''email'' \<mapsto> ''b@d.du'']"]
      ConfigurationError_propagates[of example_E example_touched
        "ConfigurationError ''bogus''" "''name''" "Object 2" 4
        "[''name'' \<mapsto> ''Bob'', ''email'' \<mapsto> ''b@d.du'']" "[(''name'', ''bogus'')]"]
    by simp
qed

text \<open>
  C9. \<^verbatim>\<open>setModel(m)\<close> with the model the instance already holds returns at once: the
  whole state (the map of validated fields, the stored validation, the dirty flag, the
  disposer and the listeners, the default language) is as before, and the evaluator is not
  consulted, so the call returns normally whatever the evaluator would do.
\<close>

theorem setModel_same_noop: "setModel E (model s) s = (Inr (), s)"
  by (simp add: setModel_def)

text \<open>
  C10. A change whose type is neither \<^verbatim>\<open>update\<close> nor \<^verbatim>\<open>add\<close> makes
  \<^verbatim>\<open>modelChanged\<close> return without validating: the state, and with it the stored
  validation, \<^verbatim>\<open>errorCount\<close> and the map of validated fields, is exactly as before.
\<close>

theorem modelChanged_other_kind:
  "change_type c \<noteq> ''update'' \<Longrightarrow> change_type c \<noteq> ''add'' \<Longrightarrow>
   modelChanged E c s = (Inr (), s)"
  by (simp add: modelChanged_def)


theorem modelChanged_other_kind_witness:
  "change_type \<lparr>change_type = ''remove'', change_name = Some ''name''\<rparr> \<noteq> ''update'' \<and>
   change_type \<lparr>change_type = ''remove'', change_name = Some ''name''\<rparr> \<noteq> ''add'' \<and>
   modelChanged example_E \<lparr>change_type = ''remove'', change_name = Some ''name''\<rparr>
     example_invalid = (Inr (), example_invalid) \<and>
   fst (modelChanged example_E \<lparr>change_type = ''update'', change_name = Some ''name''\<rparr>
     example_invalid) = Inr () \<and>
   ledger (snd (modelChanged example_E \<lparr>change_type = ''update'', change_name = Some ''name''\<rparr>
     example_invalid)) = {''name''}"
proof -
  have h1: "change_type \<lparr>change_type = ''remove'', change_name = Some ''name''\<rparr> \<noteq> ''update''"
    by simp
  have h2: "change_type \<lparr>change_type = ''remove'', change_name = Some ''name''\<rparr> \<noteq> ''add''"
    by simp
  have h3: "fst (modelChanged example_E \<lparr>change_type = ''update'', change_name = Some ''name''\<rparr>
     example_invalid) = Inr ()"
    by (simp add: modelChanged_def validateField_eq example_evaluations)
  have h4: "ledger (snd (modelChanged example_E
     \<lparr>change_type = ''update'', change_name = Some ''name''\<rparr> example_invalid)) = {''name''}"
    by (simp add: modelChanged_def validateField_eq example_evaluations ledger_validation_update
        ledger_markDirty)
       (simp add: ledger_def selectLang_fields example_invalid_fields)
  show ?thesis
    using h1 h2 h3 h4 modelChanged_other_kind[OF h1 h2, of example_E example_invalid] by simp
qed

end
